theory Spec2Isabelle
  imports Complex_Main
begin

section \<open>JavaScript values\<close>

text \<open>
  Values that cross the API client: what \<^verbatim>\<open>response.json()\<close> yields, what a method
  resolves with, and what callers pass as \<^verbatim>\<open>data\<close>. Strings are the UTF-8 bytes of a
  well-formed JavaScript string. A Number is kept as the text that \<^verbatim>\<open>Number.prototype.toString\<close>
  gives it (\<^verbatim>\<open>"12.5"\<close>, \<^verbatim>\<open>"1e+21"\<close>, \<^verbatim>\<open>"NaN"\<close>; both zeros are \<^verbatim>\<open>"0"\<close>), so no
  floating-point arithmetic is needed to print or test it. An object lists its own enumerable
  properties in enumeration order, each key once.
\<close>

type_synonym number = string

datatype js =
    Undefined
  | JNull
  | JBool bool
  | JNum number
  | JStr string
  | JArr "js list"
  | JObj "(string \<times> js) list"

text \<open>ToBoolean: \<^verbatim>\<open>undefined\<close>, \<^verbatim>\<open>null\<close>, \<^verbatim>\<open>false\<close>, \<^verbatim>\<open>0\<close>, \<^verbatim>\<open>NaN\<close> and \<^verbatim>\<open>""\<close> are falsy.\<close>

definition truthy_number :: "number \<Rightarrow> bool" where
  "truthy_number n = (n \<noteq> ''0'' \<and> n \<noteq> ''NaN'')"

fun truthy :: "js \<Rightarrow> bool" where
  "truthy Undefined = False"
| "truthy JNull = False"
| "truthy (JBool b) = b"
| "truthy (JNum n) = truthy_number n"
| "truthy (JStr s) = (s \<noteq> [])"
| "truthy (JArr xs) = True"
| "truthy (JObj kvs) = True"

text \<open>The operator \<^verbatim>\<open>a || b\<close> on values.\<close>

definition js_or :: "js \<Rightarrow> js \<Rightarrow> js" where
  "js_or a b = (if truthy a then a else b)"

text \<open>
  \<^verbatim>\<open>data?.key\<close> for a key that no prototype of a parsed JSON value defines (the source reads
  \<^verbatim>\<open>message\<close> and \<^verbatim>\<open>error\<close>): the own property of an object, \<^verbatim>\<open>undefined\<close> on anything else.
\<close>

fun opt_get :: "js \<Rightarrow> string \<Rightarrow> js" where
  "opt_get (JObj kvs) k = (case map_of kvs k of Some v \<Rightarrow> v | None \<Rightarrow> Undefined)"
| "opt_get v k = Undefined"

text \<open>\<^verbatim>\<open>xs.join(sep)\<close> on strings.\<close>

fun join :: "string \<Rightarrow> string list \<Rightarrow> string" where
  "join sep [] = []"
| "join sep [x] = x"
| "join sep (x # y # ys) = x @ sep @ join sep (y # ys)"

text \<open>A thrown \<^verbatim>\<open>Error\<close>, identified by its message, or a \<^verbatim>\<open>TypeError\<close> of the runtime.\<close>

datatype error = Error string | TypeError

text \<open>The first failure of a list of computations, else all their results.\<close>

fun collect :: "(error + 'a) list \<Rightarrow> error + 'a list" where
  "collect [] = Inr []"
| "collect (Inl e # rs) = Inl e"
| "collect (Inr x # rs) = (case collect rs of Inl e \<Rightarrow> Inl e | Inr xs \<Rightarrow> Inr (x # xs))"

text \<open>
  ToString, as \<^verbatim>\<open>new Error(v)\<close> applies it to its argument. An array joins its elements with
  a comma, \<^verbatim>\<open>null\<close> and \<^verbatim>\<open>undefined\<close> elements printing as nothing. A plain object prints
  through \<^verbatim>\<open>Object.prototype.toString\<close>; an own property named \<^verbatim>\<open>toString\<close> (never callable
  in parsed JSON) shadows it, and the conversion throws a \<^verbatim>\<open>TypeError\<close>.
\<close>

fun ToString :: "js \<Rightarrow> error + string" where
  "ToString Undefined = Inr ''undefined''"
| "ToString JNull = Inr ''null''"
| "ToString (JBool b) = Inr (if b then ''true'' else ''false'')"
| "ToString (JNum n) = Inr n"
| "ToString (JStr s) = Inr s"
| "ToString (JArr xs) =
     (case collect (map (\<lambda>x. if x = Undefined \<or> x = JNull then Inr [] else ToString x) xs) of
        Inl e \<Rightarrow> Inl e
      | Inr strs \<Rightarrow> Inr (join '','' strs))"
| "ToString (JObj kvs) =
     (if map_of kvs ''toString'' = None then Inr ''[object Object]'' else Inl TypeError)"

text \<open>
  The error that \<^verbatim>\<open>throw new Error(v)\<close> ends up throwing: the message is empty for
  \<^verbatim>\<open>undefined\<close> and the text of \<open>v\<close> otherwise, unless the conversion itself throws.
\<close>

definition new_Error :: "js \<Rightarrow> error" where
  "new_Error v =
     (if v = Undefined then Error []
      else case ToString v of Inl e \<Rightarrow> e | Inr m \<Rightarrow> Error m)"

section \<open>Storage and the force-logout slot\<close>

text \<open>
  The module-level slot \<^verbatim>\<open>forceLogoutFn\<close> holds one callback: the initial \<^verbatim>\<open>() => {}\<close> or a
  function registered by the application, known here by a name of type \<open>'f\<close>. The client only
  ever calls it; what a registered function does when called belongs to the surroundings of the
  call.
\<close>

datatype 'f callback = NoOp | Registered 'f

record 'f world =
  localStorage :: "string \<rightharpoonup> string"
  forceLogoutFn :: "'f callback"

definition initial_world :: "(string \<rightharpoonup> string) \<Rightarrow> 'f world" where
  "initial_world store = \<lparr>localStorage = store, forceLogoutFn = NoOp\<rparr>"

definition setForceLogout :: "'f \<Rightarrow> 'f world \<Rightarrow> 'f world" where
  "setForceLogout fn w = w\<lparr>forceLogoutFn := Registered fn\<rparr>"

definition removeItem :: "string \<Rightarrow> 'f world \<Rightarrow> 'f world" where
  "removeItem key w = w\<lparr>localStorage := (localStorage w)(key := None)\<rparr>"

section \<open>Requests, responses and observable effects\<close>

text \<open>The two arguments of \<^verbatim>\<open>fetch\<close>; \<open>meth\<close> and \<open>body\<close> are \<open>None\<close> when the init object omits them.\<close>

record request =
  url :: string
  meth :: "string option"
  headers :: "(string \<times> string) list"
  body :: "string option"

text \<open>
  A \<^verbatim>\<open>Response\<close>: its status and what \<^verbatim>\<open>response.json()\<close> settles with, \<open>None\<close> when that
  promise rejects. \<^verbatim>\<open>response.ok\<close> is the Fetch standard's range test.
\<close>

record response =
  status :: nat
  json :: "js option"

definition ok :: "response \<Rightarrow> bool" where
  "ok response = (200 \<le> status response \<and> status response \<le> 299)"

text \<open>What a method does besides changing the world, in order.\<close>

datatype 'f event =
    Fetch request
  | ForceLogout "'f callback"
  | SetTimeout nat
  | ConsoleError string error

text \<open>How an asynchronous method settles: resolved (\<open>Inr\<close>) or rejected (\<open>Inl\<close>).\<close>

record 'f outcome =
  settled :: "error + js"
  after :: "'f world"
  events :: "'f event list"

section \<open>\<^verbatim>\<open>ApiService.handleResponse\<close>\<close>

text \<open>
  The surroundings of one call: what \<^verbatim>\<open>fetch\<close> settles with for a request (\<open>Inl\<close> when it
  rejects), what other tasks do to the world while the method is suspended at an \<^verbatim>\<open>await\<close>,
  and what a registered callback does when it is called in a world: the error it throws, if any,
  and the world it leaves behind.
\<close>

record 'f env =
  respond :: "request \<Rightarrow> error + response"
  meanwhile :: "'f world \<Rightarrow> 'f world"
  behaviour :: "'f \<Rightarrow> 'f world \<Rightarrow> error option \<times> 'f world"

text \<open>\<^verbatim>\<open>forceLogoutFn()\<close>: the initial \<^verbatim>\<open>() => {}\<close> returns and changes nothing.\<close>

definition call_callback :: "'f env \<Rightarrow> 'f callback \<Rightarrow> 'f world \<Rightarrow> error option \<times> 'f world" where
  "call_callback env cb w = (case cb of NoOp \<Rightarrow> (None, w) | Registered fn \<Rightarrow> behaviour env fn w)"

text \<open>
  The call of the callback is not guarded: an error it throws is the error of \<open>handleResponse\<close>.
\<close>

definition handleResponse :: "'f env \<Rightarrow> 'f world \<Rightarrow> response \<Rightarrow> 'f outcome" where
  "handleResponse env w response =
     (if status response = 401 \<or> status response = 403 then
        (let w1 = removeItem ''auth_token'' w;
             (thrown, w2) = call_callback env (forceLogoutFn w1) w1
         in \<lparr>settled = (case thrown of Some e \<Rightarrow> Inl e | None \<Rightarrow> Inr Undefined),
             after = w2,
             events = [ForceLogout (forceLogoutFn w1)]\<rparr>)
      else
        (case json response of
           None \<Rightarrow> \<lparr>settled = Inl (Error ''Invalid response format.''), after = w, events = []\<rparr>
         | Some data \<Rightarrow>
             if \<not> ok response then
               \<lparr>settled = Inl (new_Error
                    (js_or (js_or (opt_get data ''message'') (opt_get data ''error''))
                           (JStr ''Unexpected error''))),
                after = w, events = []\<rparr>
             else \<lparr>settled = Inr data, after = w, events = []\<rparr>))"

section \<open>Building requests\<close>

text \<open>
  \<^verbatim>\<open>API_BASE_URL\<close>: the build-time variable \<^verbatim>\<open>VITE_API_URL\<close> (\<open>None\<close> when undefined) or,
  when it is falsy, the local development address.
\<close>

definition API_BASE_URL :: "string option \<Rightarrow> string" where
  "API_BASE_URL VITE_API_URL =
     (case VITE_API_URL of
        Some u \<Rightarrow> if u \<noteq> [] then u else ''http://localhost:5000/api''
      | None \<Rightarrow> ''http://localhost:5000/api'')"

text \<open>
  \<^verbatim>\<open>...(token && { Authorization: ... })\<close> spreads nothing when \<^verbatim>\<open>getItem\<close> gives \<^verbatim>\<open>null\<close> or
  the empty string.
\<close>

definition bearer :: "'f world \<Rightarrow> (string \<times> string) list" where
  "bearer w =
     (case localStorage w ''auth_token'' of
        Some token \<Rightarrow> if token \<noteq> [] then [(''Authorization'', ''Bearer '' @ token)] else []
      | None \<Rightarrow> [])"

definition getAuthHeaders :: "'f world \<Rightarrow> (string \<times> string) list" where
  "getAuthHeaders w = (''Content-Type'', ''application/json'') # bearer w"

definition getAuthHeadersForFormData :: "'f world \<Rightarrow> (string \<times> string) list" where
  "getAuthHeadersForFormData w = bearer w"

subsection \<open>Text produced by the platform\<close>

definition hex2 :: "string \<Rightarrow> char \<Rightarrow> string" where
  "hex2 digits c = [digits ! (of_char c div 16), digits ! (of_char c mod 16)]"

text \<open>\<^verbatim>\<open>QuoteJSONString\<close>: the escapes of \<^verbatim>\<open>JSON.stringify\<close>, with lower-case hexadecimal digits.\<close>

definition quote_char :: "char \<Rightarrow> string" where
  "quote_char c =
     (if c = CHR 0x22 then [CHR 0x5C, CHR 0x22]
      else if c = CHR 0x5C then [CHR 0x5C, CHR 0x5C]
      else if c = CHR 0x08 then [CHR 0x5C, CHR ''b'']
      else if c = CHR 0x09 then [CHR 0x5C, CHR ''t'']
      else if c = CHR 0x0A then [CHR 0x5C, CHR ''n'']
      else if c = CHR 0x0C then [CHR 0x5C, CHR ''f'']
      else if c = CHR 0x0D then [CHR 0x5C, CHR ''r'']
      else if (of_char c :: nat) < 32 then
        [CHR 0x5C, CHR ''u'', CHR ''0'', CHR ''0''] @ hex2 ''0123456789abcdef'' c
      else [c])"

definition quote :: "string \<Rightarrow> string" where
  "quote s = [CHR 0x22] @ concat (map quote_char s) @ [CHR 0x22]"

text \<open>
  \<^verbatim>\<open>JSON.stringify(v)\<close>: \<open>None\<close> is the result \<^verbatim>\<open>undefined\<close>. A property whose value is
  \<^verbatim>\<open>undefined\<close> is left out of an object and printed as \<^verbatim>\<open>null\<close> in an array; a number that is
  not finite prints as \<^verbatim>\<open>null\<close>.
\<close>

fun JSON_stringify :: "js \<Rightarrow> string option" where
  "JSON_stringify Undefined = None"
| "JSON_stringify JNull = Some ''null''"
| "JSON_stringify (JBool b) = Some (if b then ''true'' else ''false'')"
| "JSON_stringify (JNum n) =
     Some (if n = ''NaN'' \<or> n = ''Infinity'' \<or> n = ''-Infinity'' then ''null'' else n)"
| "JSON_stringify (JStr s) = Some (quote s)"
| "JSON_stringify (JArr xs) =
     Some (''['' @ join '',''
        (map (\<lambda>x. case JSON_stringify x of None \<Rightarrow> ''null'' | Some t \<Rightarrow> t) xs) @ '']'')"
| "JSON_stringify (JObj kvs) =
     Some (''{'' @ join '',''
        (concat (map (\<lambda>(k, r). case r of None \<Rightarrow> [] | Some t \<Rightarrow> [quote k @ '':'' @ t])
                     (map (\<lambda>(k, v). (k, JSON_stringify v)) kvs))) @ ''}'')"

definition alphanumeric :: string where
  "alphanumeric = ''ABCDEFGHIJKLMNOPQRSTUVWXYZabcdefghijklmnopqrstuvwxyz0123456789''"

text \<open>\<^verbatim>\<open>encodeURIComponent\<close>, byte by byte on the UTF-8 encoding.\<close>

definition encodeURIComponent :: "string \<Rightarrow> string" where
  "encodeURIComponent s =
     concat (map (\<lambda>c. if c \<in> set (alphanumeric @ ''-_.!~*()'' @ [CHR 0x27]) then [c]
                       else CHR ''%'' # hex2 ''0123456789ABCDEF'' c) s)"

text \<open>
  The text of a \<^verbatim>\<open>URLSearchParams\<close> in a template literal: the
  \<^verbatim>\<open>application/x-www-form-urlencoded\<close> serialisation of its pairs.
\<close>

definition form_urlencode :: "string \<Rightarrow> string" where
  "form_urlencode s =
     concat (map (\<lambda>c. if c \<in> set (alphanumeric @ ''*-._'') then [c]
                       else if c = CHR '' '' then ''+''
                       else CHR ''%'' # hex2 ''0123456789ABCDEF'' c) s)"

definition URLSearchParams_toString :: "(string \<times> string) list \<Rightarrow> string" where
  "URLSearchParams_toString ps =
     join ''&'' (map (\<lambda>(k, v). form_urlencode k @ ''='' @ form_urlencode v) ps)"

section \<open>The methods of \<^verbatim>\<open>ApiService\<close> that call \<^verbatim>\<open>fetch\<close>\<close>

text \<open>The optional argument of \<^verbatim>\<open>getAllProducts\<close>.\<close>

record page =
  skip :: "number option"
  take_n :: "number option"

text \<open>
  One constructor for each method, with the method's arguments. \<^verbatim>\<open>data\<close> arguments are any
  value, since the declared types are erased at run time; identifiers, e-mail addresses and status
  names are strings.
\<close>

datatype (plugins only: code) api_call =
    generateOTP string
  | verifyOTP js
  | signup js
  | signin js
  | getCurrentUser
  | updateProfile js
  | checkAdmin
  | checkUser string
  | getAllUsers
  | deleteUser string
  | getDashboard
  | impersonateUser string
  | getAllProducts "page option"
  | getProductById string
  | createProduct js
  | updateProduct string js
  | deleteProduct string
  | addProductDuration string js
  | addProductAvailability string js
  | updateProductAvailability string js
  | deleteProductAvailability string
  | createRental js
  | getAllRentals
  | getMyRentals
  | updateRentalStatus string string
  | deleteRental string
  | createQuotation js
  | acceptQuotation string
  | getAllQuotations
  | getMyQuotations
  | deleteQuotation string
  | createInvoice js
  | getAllInvoices
  | getInvoiceById string
  | updateInvoiceStatus string string
  | deleteInvoice string
  | createPayment js
  | getMyPayments
  | getAllPayments
  | updatePaymentStatus string string
  | deletePayment string
  | createNotification js
  | getMyNotifications
  | markNotificationAsRead string "bool option"
  | deleteNotification string
  | createPickup js
  | completePickup string
  | getAllPickups
  | getMyPickups
  | deletePickup string
  | createRentalReturn js
  | completeRentalReturn string
  | getAllRentalReturns
  | getMyRentalReturns
  | updateRentalReturn string js
  | deleteRentalReturn string

text \<open>The header literal of the methods that do not call \<^verbatim>\<open>getAuthHeaders\<close>.\<close>

definition json_only :: "(string \<times> string) list" where
  "json_only = [(''Content-Type'', ''application/json'')]"

text \<open>The query of \<^verbatim>\<open>getAllProducts\<close>: a parameter is appended when it is truthy.\<close>

definition queryParams :: "page option \<Rightarrow> (string \<times> string) list" where
  "queryParams params =
     (case params of
        None \<Rightarrow> []
      | Some p \<Rightarrow>
          (case skip p of Some n \<Rightarrow> if truthy_number n then [(''skip'', n)] else [] | None \<Rightarrow> []) @
          (case take_n p of Some n \<Rightarrow> if truthy_number n then [(''take'', n)] else [] | None \<Rightarrow> []))"

definition fetch_init ::
  "string \<Rightarrow> string option \<Rightarrow> (string \<times> string) list \<Rightarrow> string option \<Rightarrow> request" where
  "fetch_init u m h b = \<lparr>url = u, meth = m, headers = h, body = b\<rparr>"

text \<open>
  The arguments each method passes to \<^verbatim>\<open>fetch\<close>, for the base address \<open>base\<close> and the storage
  of \<open>w\<close>.
\<close>

primrec fetch_args :: "string \<Rightarrow> 'f world \<Rightarrow> api_call \<Rightarrow> request" where
  "fetch_args base w (generateOTP email) =
     fetch_init (base @ ''/auth/generate-otp'') (Some ''POST'') json_only
       (JSON_stringify (JObj [(''email'', JStr email)]))"
| "fetch_args base w (verifyOTP data) =
     fetch_init (base @ ''/auth/verify-otp'') (Some ''POST'') json_only (JSON_stringify data)"
| "fetch_args base w (signup data) =
     fetch_init (base @ ''/auth/signup'') (Some ''POST'') json_only (JSON_stringify data)"
| "fetch_args base w (signin data) =
     fetch_init (base @ ''/auth/signin'') (Some ''POST'') json_only (JSON_stringify data)"
| "fetch_args base w getCurrentUser =
     fetch_init (base @ ''/auth/me'') (Some ''GET'') (getAuthHeaders w) None"
| "fetch_args base w (updateProfile data) =
     fetch_init (base @ ''/auth/update-profile'') (Some ''PUT'') (getAuthHeaders w)
       (JSON_stringify data)"
| "fetch_args base w checkAdmin =
     fetch_init (base @ ''/auth/check-admin'') None json_only None"
| "fetch_args base w (checkUser email) =
     fetch_init (base @ ''/auth/check-user?email='' @ encodeURIComponent email) None json_only None"
| "fetch_args base w getAllUsers =
     fetch_init (base @ ''/auth/users'') None (getAuthHeaders w) None"
| "fetch_args base w (deleteUser userId) =
     fetch_init (base @ ''/auth/user'') (Some ''DELETE'') (getAuthHeaders w)
       (JSON_stringify (JObj [(''userId'', JStr userId)]))"
| "fetch_args base w getDashboard =
     fetch_init (base @ ''/admin/dashboard'') None (getAuthHeaders w) None"
| "fetch_args base w (impersonateUser userId) =
     fetch_init (base @ ''/admin/impersonate/'' @ userId) (Some ''POST'') (getAuthHeaders w) None"
| "fetch_args base w (getAllProducts params) =
     fetch_init (base @ ''/product?'' @ URLSearchParams_toString (queryParams params)) None
       (getAuthHeaders w) None"
| "fetch_args base w (getProductById id') =
     fetch_init (base @ ''/product/'' @ id') None (getAuthHeaders w) None"
| "fetch_args base w (createProduct data) =
     fetch_init (base @ ''/product'') (Some ''POST'') (getAuthHeaders w) (JSON_stringify data)"
| "fetch_args base w (updateProduct id' data) =
     fetch_init (base @ ''/product/'' @ id') (Some ''PUT'') (getAuthHeaders w) (JSON_stringify data)"
| "fetch_args base w (deleteProduct id') =
     fetch_init (base @ ''/product/'' @ id') (Some ''DELETE'') (getAuthHeaders w) None"
| "fetch_args base w (addProductDuration id' data) =
     fetch_init (base @ ''/product/'' @ id' @ ''/duration'') (Some ''POST'') (getAuthHeaders w)
       (JSON_stringify data)"
| "fetch_args base w (addProductAvailability id' data) =
     fetch_init (base @ ''/product/'' @ id' @ ''/availability'') (Some ''POST'') (getAuthHeaders w)
       (JSON_stringify data)"
| "fetch_args base w (updateProductAvailability availabilityId data) =
     fetch_init (base @ ''/product/availability/'' @ availabilityId) (Some ''PUT'')
       (getAuthHeaders w) (JSON_stringify data)"
| "fetch_args base w (deleteProductAvailability availabilityId) =
     fetch_init (base @ ''/product/availability/'' @ availabilityId) (Some ''DELETE'')
       (getAuthHeaders w) None"
| "fetch_args base w (createRental data) =
     fetch_init (base @ ''/rental'') (Some ''POST'') (getAuthHeaders w) (JSON_stringify data)"
| "fetch_args base w getAllRentals =
     fetch_init (base @ ''/rental'') None (getAuthHeaders w) None"
| "fetch_args base w getMyRentals =
     fetch_init (base @ ''/rental/my'') None (getAuthHeaders w) None"
| "fetch_args base w (updateRentalStatus id' status') =
     fetch_init (base @ ''/rental/'' @ id' @ ''/status'') (Some ''PUT'') (getAuthHeaders w)
       (JSON_stringify (JObj [(''status'', JStr status')]))"
| "fetch_args base w (deleteRental id') =
     fetch_init (base @ ''/rental/'' @ id') (Some ''DELETE'') (getAuthHeaders w) None"
| "fetch_args base w (createQuotation data) =
     fetch_init (base @ ''/quotation'') (Some ''POST'') (getAuthHeaders w) (JSON_stringify data)"
| "fetch_args base w (acceptQuotation id') =
     fetch_init (base @ ''/quotation/'' @ id' @ ''/accept'') (Some ''POST'') (getAuthHeaders w) None"
| "fetch_args base w getAllQuotations =
     fetch_init (base @ ''/quotation'') None (getAuthHeaders w) None"
| "fetch_args base w getMyQuotations =
     fetch_init (base @ ''/quotation/my'') None (getAuthHeaders w) None"
| "fetch_args base w (deleteQuotation id') =
     fetch_init (base @ ''/quotation/'' @ id') (Some ''DELETE'') (getAuthHeaders w) None"
| "fetch_args base w (createInvoice data) =
     fetch_init (base @ ''/invoice'') (Some ''POST'') (getAuthHeaders w) (JSON_stringify data)"
| "fetch_args base w getAllInvoices =
     fetch_init (base @ ''/invoice'') None (getAuthHeaders w) None"
| "fetch_args base w (getInvoiceById id') =
     fetch_init (base @ ''/invoice/'' @ id') None (getAuthHeaders w) None"
| "fetch_args base w (updateInvoiceStatus id' status') =
     fetch_init (base @ ''/invoice/'' @ id' @ ''/status'') (Some ''PUT'') (getAuthHeaders w)
       (JSON_stringify (JObj [(''status'', JStr status')]))"
| "fetch_args base w (deleteInvoice id') =
     fetch_init (base @ ''/invoice/'' @ id') (Some ''DELETE'') (getAuthHeaders w) None"
| "fetch_args base w (createPayment data) =
     fetch_init (base @ ''/payment'') (Some ''POST'') (getAuthHeaders w) (JSON_stringify data)"
| "fetch_args base w getMyPayments =
     fetch_init (base @ ''/payment/my'') None (getAuthHeaders w) None"
| "fetch_args base w getAllPayments =
     fetch_init (base @ ''/payment'') None (getAuthHeaders w) None"
| "fetch_args base w (updatePaymentStatus id' status') =
     fetch_init (base @ ''/payment/'' @ id' @ ''/status'') (Some ''PUT'') (getAuthHeaders w)
       (JSON_stringify (JObj [(''status'', JStr status')]))"
| "fetch_args base w (deletePayment id') =
     fetch_init (base @ ''/payment/'' @ id') (Some ''DELETE'') (getAuthHeaders w) None"
| "fetch_args base w (createNotification data) =
     fetch_init (base @ ''/notification'') (Some ''POST'') (getAuthHeaders w) (JSON_stringify data)"
| "fetch_args base w getMyNotifications =
     fetch_init (base @ ''/notification'') None (getAuthHeaders w) None"
| "fetch_args base w (markNotificationAsRead id' isRead) =
     fetch_init (base @ ''/notification/'' @ id' @ ''/read'') (Some ''PUT'') (getAuthHeaders w)
       (JSON_stringify
          (JObj [(''isRead'', JBool (case isRead of None \<Rightarrow> True | Some b \<Rightarrow> b))]))"
| "fetch_args base w (deleteNotification id') =
     fetch_init (base @ ''/notification/'' @ id') (Some ''DELETE'') (getAuthHeaders w) None"
| "fetch_args base w (createPickup data) =
     fetch_init (base @ ''/pickup'') (Some ''POST'') (getAuthHeaders w) (JSON_stringify data)"
| "fetch_args base w (completePickup id') =
     fetch_init (base @ ''/pickup/'' @ id' @ ''/complete'') (Some ''PUT'') (getAuthHeaders w) None"
| "fetch_args base w getAllPickups =
     fetch_init (base @ ''/pickup'') None (getAuthHeaders w) None"
| "fetch_args base w getMyPickups =
     fetch_init (base @ ''/pickup/my'') None (getAuthHeaders w) None"
| "fetch_args base w (deletePickup id') =
     fetch_init (base @ ''/pickup/'' @ id') (Some ''DELETE'') (getAuthHeaders w) None"
| "fetch_args base w (createRentalReturn data) =
     fetch_init (base @ ''/rental-return'') (Some ''POST'') (getAuthHeaders w) (JSON_stringify data)"
| "fetch_args base w (completeRentalReturn id') =
     fetch_init (base @ ''/rental-return/'' @ id' @ ''/complete'') (Some ''PUT'') (getAuthHeaders w)
       None"
| "fetch_args base w getAllRentalReturns =
     fetch_init (base @ ''/rental-return'') None (getAuthHeaders w) None"
| "fetch_args base w getMyRentalReturns =
     fetch_init (base @ ''/rental-return/my'') None (getAuthHeaders w) None"
| "fetch_args base w (updateRentalReturn id' data) =
     fetch_init (base @ ''/rental-return/'' @ id') (Some ''PUT'') (getAuthHeaders w)
       (JSON_stringify data)"
| "fetch_args base w (deleteRentalReturn id') =
     fetch_init (base @ ''/rental-return/'' @ id') (Some ''DELETE'') (getAuthHeaders w) None"

text \<open>The methods whose header literal is written out, without \<^verbatim>\<open>getAuthHeaders\<close>.\<close>

definition unauthenticated :: "api_call \<Rightarrow> bool" where
  "unauthenticated c =
     (case c of
        generateOTP email \<Rightarrow> True
      | verifyOTP data \<Rightarrow> True
      | signup data \<Rightarrow> True
      | signin data \<Rightarrow> True
      | checkAdmin \<Rightarrow> True
      | checkUser email \<Rightarrow> True
      | _ \<Rightarrow> False)"

section \<open>Running a method\<close>

text \<open>\<^verbatim>\<open>const response = await fetch(...); return this.handleResponse(response);\<close>\<close>

definition send :: "'f env \<Rightarrow> 'f world \<Rightarrow> request \<Rightarrow> 'f outcome" where
  "send env w req =
     (case respond env req of
        Inl e \<Rightarrow> \<lparr>settled = Inl e, after = meanwhile env w, events = [Fetch req]\<rparr>
      | Inr response \<Rightarrow>
          (let out = handleResponse env (meanwhile env w) response
           in out\<lparr>events := Fetch req # events out\<rparr>))"

text \<open>
  \<^verbatim>\<open>getCurrentUser\<close> returns the logged-out state without a request when the token is missing
  or empty; otherwise a failure is logged and thrown again.
\<close>

definition run_getCurrentUser :: "string \<Rightarrow> 'f env \<Rightarrow> 'f world \<Rightarrow> 'f outcome" where
  "run_getCurrentUser base env w =
     (let token = localStorage w ''auth_token'' in
      if token = None \<or> token = Some [] then
        \<lparr>settled = Inr (JObj [(''user'', JNull)]), after = w, events = []\<rparr>
      else
        (let out = send env w (fetch_args base w getCurrentUser) in
         case settled out of
           Inl e \<Rightarrow> out\<lparr>events := events out @ [ConsoleError ''Error in getCurrentUser:'' e]\<rparr>
         | Inr v \<Rightarrow> out))"

text \<open>Calling a method of the exported \<^verbatim>\<open>apiService\<close>.\<close>

definition invoke :: "string \<Rightarrow> 'f env \<Rightarrow> 'f world \<Rightarrow> api_call \<Rightarrow> 'f outcome" where
  "invoke base env w c =
     (if c = getCurrentUser then run_getCurrentUser base env w
      else send env w (fetch_args base w c))"

text \<open>Whether the method gets as far as calling \<^verbatim>\<open>fetch\<close>.\<close>

definition calls_fetch :: "'f world \<Rightarrow> api_call \<Rightarrow> bool" where
  "calls_fetch w c =
     (c \<noteq> getCurrentUser
      \<or> (localStorage w ''auth_token'' \<noteq> None \<and> localStorage w ''auth_token'' \<noteq> Some []))"

section \<open>The simulated endpoints\<close>

subsection \<open>Binary floating point\<close>

text \<open>
  The finite values of a Number are rationals. \<open>RN\<close> rounds a rational to the nearest binary64
  value, ties to the even significand, with the spacing of the subnormal numbers below
  \<open>2 powi (- 1022)\<close>; results beyond the largest finite value do not occur in this program.
  So \<open>RN (1 / 10)\<close> is the value of the literal \<^verbatim>\<open>0.1\<close>, and \<open>RN (x * y)\<close> the product
  \<^verbatim>\<open>x * y\<close> of two Numbers.
\<close>

function bits :: "nat \<Rightarrow> nat" where
  "bits n = (if n = 0 then 0 else Suc (bits (n div 2)))"
  by pat_completeness auto
termination
  by (relation "measure id") auto

declare bits.simps [simp del]

text \<open>The exponent \<open>e\<close> with \<open>2 powi e \<le> a < 2 powi (e + 1)\<close>, for positive \<open>a\<close>.\<close>

definition ilog2 :: "rat \<Rightarrow> int" where
  "ilog2 a =
     (let (p, q) = quotient_of a;
          e0 = int (bits (nat p)) - int (bits (nat q))
      in if 2 powi e0 \<le> a then e0 else e0 - 1)"

text \<open>The nearest integer, a tie going to the even one.\<close>

definition round_half_even :: "rat \<Rightarrow> int" where
  "round_half_even m =
     (let f = \<lfloor>m\<rfloor>; r = m - of_int f
      in if r < 1 / 2 then f else if 1 / 2 < r then f + 1 else if even f then f else f + 1)"

text \<open>The distance between neighbouring binary64 values around the positive \<open>a\<close>.\<close>

definition spacing :: "rat \<Rightarrow> rat" where
  "spacing a = 2 powi (max (ilog2 a) (- 1022) - 52)"

definition RN :: "rat \<Rightarrow> rat" where
  "RN x =
     (if x = 0 then 0
      else sgn x * of_int (round_half_even (\<bar>x\<bar> / spacing \<bar>x\<bar>)) * spacing \<bar>x\<bar>)"

subsection \<open>Printing integers\<close>

function show_nat :: "nat \<Rightarrow> string" where
  "show_nat n =
     (if n < 10 then [''0123456789'' ! n]
      else show_nat (n div 10) @ [''0123456789'' ! (n mod 10)])"
  by pat_completeness auto
termination
proof (relation "measure id")
  show "wf (measure id)" by simp
next
  fix n :: nat
  assume "\<not> n < 10"
  then show "(n div 10, n) \<in> measure id" by simp
qed

declare show_nat.simps [simp del]

text \<open>The decimal text of an integer Number below \<^verbatim>\<open>1e21\<close> in magnitude.\<close>

definition show_int :: "int \<Rightarrow> number" where
  "show_int i = (if i < 0 then ''-'' @ show_nat (nat (- i)) else show_nat (nat i))"

subsection \<open>The runtime\<close>

text \<open>
  What the platform supplies to one call: the successive results of \<^verbatim>\<open>Math.random()\<close>
  (binary64 values, at least 0 and below 1), the clock \<^verbatim>\<open>Date.now()\<close>, the base-36 text
  \<^verbatim>\<open>x.toString(36)\<close> of a Number, the time value \<^verbatim>\<open>new Date(s).getTime()\<close> of a date string
  (\<open>None\<close> for \<^verbatim>\<open>NaN\<close>), and \<^verbatim>\<open>toISOString()\<close> of a valid time value. Time values are
  whole milliseconds, at most 8640000000000000 in magnitude.
\<close>

record runtime =
  Math_random :: "nat \<Rightarrow> rat"
  Date_now :: int
  toString36 :: "rat \<Rightarrow> string"
  getTime :: "string \<rightharpoonup> int"
  toISOString :: "int \<Rightarrow> string"

text \<open>\<^verbatim>\<open>s.substr(start, length)\<close> for a start and a length that are not negative.\<close>

definition substr :: "string \<Rightarrow> nat \<Rightarrow> nat \<Rightarrow> string" where
  "substr s start len = take len (drop start s)"


subsection \<open>\<^verbatim>\<open>processPayment\<close>\<close>

definition transactionId :: "runtime \<Rightarrow> string" where
  "transactionId rt =
     ''TXN_'' @ show_int (Date_now rt) @ ''_'' @ substr (toString36 rt (Math_random rt 1)) 2 9"

definition processPayment :: "runtime \<Rightarrow> 'f env \<Rightarrow> 'f world \<Rightarrow> js \<Rightarrow> 'f outcome" where
  "processPayment rt env w paymentData =
     (let isSuccess = (Math_random rt 0 > RN (1 / 10)) in
      if isSuccess then
        \<lparr>settled = Inr (JObj
           [(''success'', JBool True),
            (''transactionId'', JStr (transactionId rt)),
            (''message'', JStr ''Payment processed successfully'')]),
         after = meanwhile env w, events = [SetTimeout 2000]\<rparr>
      else
        \<lparr>settled = Inl (Error ''Payment failed. Please try again.''),
         after = meanwhile env w, events = [SetTimeout 2000]\<rparr>)"

subsection \<open>The report endpoints\<close>










section \<open>The login form\<close>

text \<open>\<^verbatim>\<open>s.includes(sub)\<close>: \<open>sub\<close> occurs in \<open>s\<close> at some position.\<close>

fun str_includes :: "string \<Rightarrow> string \<Rightarrow> bool" where
  "str_includes [] sub = (sub = [])"
| "str_includes (c # cs) sub = (take (length sub) (c # cs) = sub \<or> str_includes cs sub)"

text \<open>What submitting the form does: the calls made on the event and on the \<^verbatim>\<open>onLogin\<close> prop.\<close>

datatype form_event = PreventDefault | OnLogin string | FetchCall request

text \<open>\<^verbatim>\<open>handleSubmit\<close> in the state where the fields hold \<open>email\<close> and \<open>password\<close>.\<close>

definition handleSubmit :: "string \<Rightarrow> string \<Rightarrow> form_event list" where
  "handleSubmit email password =
     (let role = (if str_includes email ''admin'' then ''admin'' else ''customer'')
      in [PreventDefault, OnLogin role])"

section \<open>Example inputs\<close>

text \<open>
  A session with a stored token and a registered callback, one without either, some responses,
  surroundings in which every request gets the same response, nothing else runs and the callback
  returns without touching the world, and the same surroundings with a callback that throws.
\<close>

definition signed_in :: "unit world" where
  "signed_in = setForceLogout () (initial_world [''auth_token'' \<mapsto> ''abc''])"

definition signed_out :: "unit world" where
  "signed_out = initial_world Map.empty"

definition unauthorized_garbled :: response where
  "unauthorized_garbled = \<lparr>status = 401, json = None\<rparr>"

definition server_error :: response where
  "server_error =
     \<lparr>status = 500, json = Some (JObj [(''message'', JStr ''Database unavailable'')])\<rparr>"

definition conflict_error :: response where
  "conflict_error =
     \<lparr>status = 409, json = Some (JObj [(''error'', JStr ''Email already registered'')])\<rparr>"

definition bare_error :: response where
  "bare_error = \<lparr>status = 502, json = Some (JObj [])\<rparr>"

definition created :: response where
  "created = \<lparr>status = 201, json = Some (JObj [(''id'', JStr ''r1'')])\<rparr>"

definition ok_garbled :: response where
  "ok_garbled = \<lparr>status = 200, json = None\<rparr>"

definition credentials :: js where
  "credentials = JObj [(''email'', JStr ''a@b.c''), (''password'', JStr ''pw'')]"

definition quiet :: "response \<Rightarrow> unit env" where
  "quiet r =
     \<lparr>respond = (\<lambda>req. Inr r), meanwhile = (\<lambda>w. w), behaviour = (\<lambda>fn w. (None, w))\<rparr>"

definition broken_logout :: "response \<Rightarrow> unit env" where
  "broken_logout r =
     (quiet r)\<lparr>behaviour := (\<lambda>fn w. (Some (Error ''logout handler failed''), w))\<rparr>"

text \<open>
  A runtime whose every draw is one half, whose clock stands still and which knows the first days of
  January 2024 at midnight; one whose every draw is one sixteenth; and a request for the first week
  of that January.
\<close>

definition half_runtime :: runtime where
  "half_runtime =
     \<lparr>Math_random = (\<lambda>i. 1 / 2),
      Date_now = 1700000000000,
      toString36 = (\<lambda>x. ''0.i''),
      getTime = [''2024-01-01'' \<mapsto> 1704067200000, ''2024-01-08'' \<mapsto> 1704672000000],
      toISOString = (\<lambda>t. ''2024-01-0'' @ show_int ((t - 1704067200000) div 86400000 + 1)
                         @ ''T00:00:00.000Z'')\<rparr>"

definition unlucky_runtime :: runtime where
  "unlucky_runtime = half_runtime\<lparr>Math_random := (\<lambda>i. 1 / 16)\<rparr>"



section \<open>How \<^verbatim>\<open>handleResponse\<close> settles\<close>

lemma handleResponse_unauthorized:
  assumes "status response = 401 \<or> status response = 403"
  shows "handleResponse env w response =
           \<lparr>settled =
              (case fst (call_callback env (forceLogoutFn w) (removeItem ''auth_token'' w)) of
                 Some e \<Rightarrow> Inl e
               | None \<Rightarrow> Inr Undefined),
            after = snd (call_callback env (forceLogoutFn w) (removeItem ''auth_token'' w)),
            events = [ForceLogout (forceLogoutFn w)]\<rparr>"
  using assms by (auto simp: handleResponse_def removeItem_def Let_def split: prod.splits)

lemma handleResponse_other:
  assumes "status response \<noteq> 401" "status response \<noteq> 403"
  shows "handleResponse env w response =
           \<lparr>settled =
              (case json response of
                 None \<Rightarrow> Inl (Error ''Invalid response format.'')
               | Some data \<Rightarrow>
                   if ok response then Inr data
                   else Inl (new_Error
                           (js_or (js_or (opt_get data ''message'') (opt_get data ''error''))
                                  (JStr ''Unexpected error'')))),
            after = w, events = []\<rparr>"
  using assms by (simp add: handleResponse_def split: option.splits)

lemma send_response:
  assumes "respond env req = Inr response"
  shows "send env w req =
           (handleResponse env (meanwhile env w) response)
             \<lparr>events := Fetch req # events (handleResponse env (meanwhile env w) response)\<rparr>"
  using assms by (simp add: send_def Let_def)

lemma send_rejected:
  assumes "respond env req = Inl e"
  shows "send env w req = \<lparr>settled = Inl e, after = meanwhile env w, events = [Fetch req]\<rparr>"
  using assms by (simp add: send_def)

lemma invoke_events:
  assumes "calls_fetch w c" and "respond env (fetch_args base w c) = Inr response"
  shows "events (invoke base env w c) =
           Fetch (fetch_args base w c) # events (handleResponse env (meanwhile env w) response) @
           (case settled (handleResponse env (meanwhile env w) response) of
              Inl e \<Rightarrow> if c = getCurrentUser then [ConsoleError ''Error in getCurrentUser:'' e] else []
            | Inr v \<Rightarrow> [])"
  using assms
  by (auto simp: calls_fetch_def invoke_def run_getCurrentUser_def Let_def send_response
      split: sum.splits)

lemma invoke_after:
  assumes "calls_fetch w c" and "respond env (fetch_args base w c) = Inr response"
  shows "after (invoke base env w c) = after (handleResponse env (meanwhile env w) response)"
  using assms
  by (auto simp: calls_fetch_def invoke_def run_getCurrentUser_def Let_def send_response
      split: sum.splits)

lemma handleResponse_no_fetch: "Fetch r \<notin> set (events (handleResponse env w response))"
  by (simp add: handleResponse_def Let_def split: option.splits prod.splits)

lemma send_fetches: "Fetch r \<in> set (events (send env w req)) \<Longrightarrow> r = req"
  by (auto simp: send_def Let_def handleResponse_no_fetch split: sum.splits)

lemma invoke_fetches:
  "Fetch r \<in> set (events (invoke base env w c)) \<Longrightarrow> r = fetch_args base w c"
  by (auto simp: invoke_def run_getCurrentUser_def Let_def split: if_splits sum.splits
      dest: send_fetches)

lemma invoke_settled:
  assumes "calls_fetch w c" and "respond env (fetch_args base w c) = Inr response"
  shows "settled (invoke base env w c) = settled (handleResponse env (meanwhile env w) response)"
  using assms
  by (auto simp: calls_fetch_def invoke_def run_getCurrentUser_def Let_def send_response
      split: sum.splits)

lemma headers_fetch_args:
  "headers (fetch_args base w c) = (if unauthenticated c then json_only else getAuthHeaders w)"
  by (cases c) (simp_all add: unauthenticated_def fetch_init_def)

lemma authorization_of_getAuthHeaders:
  "map_of (getAuthHeaders w) ''Authorization'' =
     (case localStorage w ''auth_token'' of
        Some token \<Rightarrow> if token \<noteq> [] then Some (''Bearer '' @ token) else None
      | None \<Rightarrow> None)"
  by (simp add: getAuthHeaders_def bearer_def split: option.splits)

section \<open>Facts about rounding and printing\<close>















lemma RN_tenth: "RN (1 / 10) = 3602879701896397 / 36028797018963968"
  by code_simp


lemma show_nat_numeral:
  "show_nat (numeral k) =
     (if numeral k < (10::nat) then [''0123456789'' ! numeral k]
      else show_nat (numeral k div 10) @ [''0123456789'' ! (numeral k mod 10)])"
  by (rule show_nat.simps)

lemma show_nat_0: "show_nat 0 = ''0''"
  by (simp add: show_nat.simps [of 0])

lemma show_nat_1: "show_nat (Suc 0) = ''1''"
  by (simp add: show_nat.simps [of "Suc 0"])

lemmas show_int_eval = show_int_def show_nat_numeral show_nat_0 show_nat_1

lemma digit_nth: "d < 10 \<Longrightarrow> ''0123456789'' ! d \<in> set ''0123456789''"
  by (rule nth_mem) simp

lemma show_nat_digits: "show_nat n \<noteq> [] \<and> set (show_nat n) \<subseteq> set ''0123456789''"
proof (induction n rule: show_nat.induct)
  case (1 n)
  show ?case
  proof (cases "n < 10")
    case True
    then show ?thesis using digit_nth [of n] by (subst (1 2) show_nat.simps) simp
  next
    case False
    have "n mod 10 < 10" by simp
    then have "''0123456789'' ! (n mod 10) \<in> set ''0123456789''" by (rule digit_nth)
    with False "1.IH" show ?thesis by (subst (1 2) show_nat.simps) simp
  qed
qed




section \<open>Authorization failures\<close>

text \<open>
  Claim C1, as stated: on every 401 or 403 the calling method resolves with \<^verbatim>\<open>undefined\<close> rather
  than throwing. It fails when the registered callback throws: the call is not guarded, so the
  method rejects with the callback's error.
\<close>

theorem unauthorized_forces_logout_counterexample:
  "status unauthorized_garbled = 401
   \<and> forceLogoutFn signed_in = Registered ()
   \<and> behaviour (broken_logout unauthorized_garbled) () (removeItem ''auth_token'' signed_in)
        = (Some (Error ''logout handler failed''), removeItem ''auth_token'' signed_in)
   \<and> settled (handleResponse (broken_logout unauthorized_garbled) signed_in unauthorized_garbled)
        = Inl (Error ''logout handler failed'')
   \<and> settled (invoke ''/api'' (broken_logout unauthorized_garbled) signed_in getAllRentals)
        = Inl (Error ''logout handler failed'')
   \<and> settled (invoke ''/api'' (broken_logout unauthorized_garbled) signed_in getAllRentals)
        \<noteq> Inr Undefined"
  by (simp add: unauthorized_garbled_def broken_logout_def quiet_def signed_in_def
      initial_world_def setForceLogout_def removeItem_def handleResponse_def call_callback_def
      invoke_def send_def Let_def)

text \<open>
  Claim C1, amended. For every response with status 401 or 403, whatever its body,
  \<open>handleResponse\<close> removes the key \<^verbatim>\<open>auth_token\<close> from local storage and then calls the callback
  that the slot holds at that moment exactly once (the slot starts as the no-op and holds the last
  function given to \<open>setForceLogout\<close>). When the callback returns, \<open>handleResponse\<close> and the
  calling method resolve with \<^verbatim>\<open>undefined\<close>; when it throws, they reject with the error it threw.
  The world afterwards is the one the callback leaves, which for the initial no-op is the world
  without the token.
\<close>

theorem unauthorized_forces_logout:
  assumes "status response = 401 \<or> status response = 403"
  shows "events (handleResponse env w response) = [ForceLogout (forceLogoutFn w)]
       \<and> (\<forall>w'. call_callback env (forceLogoutFn w)
                  (w\<lparr>localStorage := (localStorage w)(''auth_token'' := None)\<rparr>) = (None, w') \<longrightarrow>
              settled (handleResponse env w response) = Inr Undefined
            \<and> after (handleResponse env w response) = w')
       \<and> (\<forall>e w'. call_callback env (forceLogoutFn w)
                  (w\<lparr>localStorage := (localStorage w)(''auth_token'' := None)\<rparr>) = (Some e, w') \<longrightarrow>
              settled (handleResponse env w response) = Inl e
            \<and> after (handleResponse env w response) = w')
       \<and> (forceLogoutFn w = NoOp \<longrightarrow>
              settled (handleResponse env w response) = Inr Undefined
            \<and> after (handleResponse env w response)
                = w\<lparr>localStorage := (localStorage w)(''auth_token'' := None)\<rparr>)
       \<and> forceLogoutFn (initial_world store :: 'f world) = NoOp
       \<and> forceLogoutFn (setForceLogout fn w) = Registered fn
       \<and> (calls_fetch w c \<and> respond env (fetch_args base w c) = Inr response \<longrightarrow>
              settled (invoke base env w c)
                = settled (handleResponse env (meanwhile env w) response)
            \<and> after (invoke base env w c) = after (handleResponse env (meanwhile env w) response)
            \<and> events (invoke base env w c) =
                Fetch (fetch_args base w c) # ForceLogout (forceLogoutFn (meanwhile env w)) #
                (case settled (handleResponse env (meanwhile env w) response) of
                   Inl e \<Rightarrow>
                     if c = getCurrentUser then [ConsoleError ''Error in getCurrentUser:'' e]
                     else []
                 | Inr v \<Rightarrow> []))"
proof -
  note h = handleResponse_unauthorized [OF assms]
  have "calls_fetch w c \<and> respond env (fetch_args base w c) = Inr response \<longrightarrow>
          settled (invoke base env w c) = settled (handleResponse env (meanwhile env w) response)
        \<and> after (invoke base env w c) = after (handleResponse env (meanwhile env w) response)
        \<and> events (invoke base env w c) =
            Fetch (fetch_args base w c) # ForceLogout (forceLogoutFn (meanwhile env w)) #
            (case settled (handleResponse env (meanwhile env w) response) of
               Inl e \<Rightarrow>
                 if c = getCurrentUser then [ConsoleError ''Error in getCurrentUser:'' e]
                 else []
             | Inr v \<Rightarrow> [])"
    using h [of env "meanwhile env w"]
    by (simp add: invoke_settled invoke_after invoke_events)
  then show ?thesis
    by (simp add: h [of env w] removeItem_def initial_world_def setForceLogout_def
        call_callback_def)
qed

theorem unauthorized_forces_logout_witness:
  "(status unauthorized_garbled = 401 \<or> status unauthorized_garbled = 403)
   \<and> respond (quiet unauthorized_garbled) (fetch_args ''/api'' signed_in getAllRentals)
       = Inr unauthorized_garbled
   \<and> calls_fetch signed_in getAllRentals
   \<and> localStorage signed_in ''auth_token'' = Some ''abc''
   \<and> call_callback (quiet unauthorized_garbled) (forceLogoutFn signed_in)
        (signed_in\<lparr>localStorage := (localStorage signed_in)(''auth_token'' := None)\<rparr>)
       = (None, signed_in\<lparr>localStorage := (localStorage signed_in)(''auth_token'' := None)\<rparr>)
   \<and> settled (invoke ''/api'' (quiet unauthorized_garbled) signed_in getAllRentals) = Inr Undefined
   \<and> localStorage (after (invoke ''/api'' (quiet unauthorized_garbled) signed_in getAllRentals))
        ''auth_token'' = None
   \<and> events (invoke ''/api'' (quiet unauthorized_garbled) signed_in getAllRentals) =
        [Fetch (fetch_args ''/api'' signed_in getAllRentals), ForceLogout (Registered ())]"
  using unauthorized_forces_logout
    [where response = unauthorized_garbled and w = signed_in and c = getAllRentals
       and env = "quiet unauthorized_garbled" and base = "''/api''"]
  by (simp add: unauthorized_garbled_def quiet_def signed_in_def initial_world_def
      setForceLogout_def calls_fetch_def call_callback_def)

section \<open>The authorization header\<close>

text \<open>
  Claim C2, as stated: every method that issues a request sends \<^verbatim>\<open>Authorization: Bearer <token>\<close>
  when a token is stored. It fails for \<^verbatim>\<open>signin\<close>, whose header literal has no such entry.
\<close>

theorem bearer_header_counterexample:
  "localStorage signed_in ''auth_token'' = Some ''abc''
   \<and> headers (fetch_args ''/api'' signed_in (signin credentials))
        = [(''Content-Type'', ''application/json'')]
   \<and> map_of (headers (fetch_args ''/api'' signed_in (signin credentials))) ''Authorization'' = None"
  by (simp add: signed_in_def initial_world_def setForceLogout_def fetch_init_def json_only_def)

text \<open>
  Claim C2, amended. The six methods with a written-out header literal (\<^verbatim>\<open>generateOTP\<close>,
  \<^verbatim>\<open>verifyOTP\<close>, \<^verbatim>\<open>signup\<close>, \<^verbatim>\<open>signin\<close>, \<^verbatim>\<open>checkAdmin\<close>, \<^verbatim>\<open>checkUser\<close>) never send an
  \<^verbatim>\<open>Authorization\<close> header. Every other method sends \<^verbatim>\<open>Bearer <token>\<close> when a non-empty token is
  stored under \<^verbatim>\<open>auth_token\<close> and no \<^verbatim>\<open>Authorization\<close> header otherwise; the only request a
  method issues is the one built this way.
\<close>

theorem bearer_header:
  "headers (fetch_args base w c) = (if unauthenticated c then json_only else getAuthHeaders w)
   \<and> map_of (headers (fetch_args base w c)) ''Authorization'' =
       (case localStorage w ''auth_token'' of
          Some token \<Rightarrow>
            if token \<noteq> [] \<and> \<not> unauthenticated c then Some (''Bearer '' @ token) else None
        | None \<Rightarrow> None)
   \<and> (\<forall>r. Fetch r \<in> set (events (invoke base env w c)) \<longrightarrow> r = fetch_args base w c)"
  by (auto simp: headers_fetch_args authorization_of_getAuthHeaders json_only_def
      dest: invoke_fetches split: option.splits)

theorem bearer_header_witness:
  "Fetch (fetch_args ''/api'' signed_in getAllRentals)
     \<in> set (events (invoke ''/api'' (quiet server_error) signed_in getAllRentals))
   \<and> \<not> unauthenticated getAllRentals
   \<and> map_of (headers (fetch_args ''/api'' signed_in getAllRentals)) ''Authorization''
       = Some ''Bearer abc''
   \<and> map_of (headers (fetch_args ''/api'' signed_out getAllRentals)) ''Authorization'' = None"
  using bearer_header [where base = "''/api''" and w = signed_in and c = getAllRentals
      and env = "quiet server_error"]
    bearer_header [where base = "''/api''" and w = signed_out and c = getAllRentals
      and env = "quiet server_error"]
  by (simp add: signed_in_def signed_out_def initial_world_def setForceLogout_def
      unauthenticated_def invoke_def send_def quiet_def Let_def fetch_init_def)

section \<open>Unparseable bodies\<close>

text \<open>
  Claim C3, as stated: an unparseable body gives the fixed parse error whatever the status, 401
  and 403 included. It fails at status 401, where the body is never read: with a callback that
  returns, the method resolves with \<^verbatim>\<open>undefined\<close>.
\<close>

theorem unparseable_body_counterexample:
  "json unauthorized_garbled = None
   \<and> settled (handleResponse (quiet unauthorized_garbled) signed_in unauthorized_garbled) = Inr Undefined
   \<and> settled (handleResponse (quiet unauthorized_garbled) signed_in unauthorized_garbled)
        \<noteq> Inl (Error ''Invalid response format.'')"
  by (simp add: unauthorized_garbled_def handleResponse_def quiet_def signed_in_def
      initial_world_def setForceLogout_def removeItem_def call_callback_def Let_def)

text \<open>
  Claim C3, amended. For a response whose body cannot be parsed, \<open>handleResponse\<close> rejects with
  \<^verbatim>\<open>Invalid response format.\<close> at every status other than 401 and 403, 2xx included, and so
  does the calling method. At 401 and 403 the body is not read: the outcome is that of the
  force-logout callback, \<^verbatim>\<open>undefined\<close> when it returns and its error when it throws.
\<close>

theorem unparseable_body:
  assumes "json response = None"
  shows "(status response \<noteq> 401 \<and> status response \<noteq> 403 \<longrightarrow>
            settled (handleResponse env w response) = Inl (Error ''Invalid response format.''))
       \<and> (status response = 401 \<or> status response = 403 \<longrightarrow>
            settled (handleResponse env w response) =
              (case fst (call_callback env (forceLogoutFn w) (removeItem ''auth_token'' w)) of
                 Some e \<Rightarrow> Inl e
               | None \<Rightarrow> Inr Undefined))
       \<and> (calls_fetch w c \<and> respond env (fetch_args base w c) = Inr response
            \<and> status response \<noteq> 401 \<and> status response \<noteq> 403 \<longrightarrow>
              settled (invoke base env w c) = Inl (Error ''Invalid response format.''))"
  using assms
  by (auto simp: handleResponse_other handleResponse_unauthorized invoke_settled)

theorem unparseable_body_witness:
  "json ok_garbled = None \<and> status ok_garbled \<noteq> 401 \<and> status ok_garbled \<noteq> 403
   \<and> calls_fetch signed_in getAllRentals
   \<and> respond (quiet ok_garbled) (fetch_args ''/api'' signed_in getAllRentals) = Inr ok_garbled
   \<and> settled (handleResponse (quiet ok_garbled) signed_in ok_garbled)
        = Inl (Error ''Invalid response format.'')
   \<and> settled (invoke ''/api'' (quiet ok_garbled) signed_in getAllRentals)
        = Inl (Error ''Invalid response format.'')
   \<and> (status unauthorized_garbled = 401 \<or> status unauthorized_garbled = 403)
   \<and> json unauthorized_garbled = None
   \<and> settled (handleResponse (quiet unauthorized_garbled) signed_in unauthorized_garbled)
        = Inr Undefined
   \<and> settled (handleResponse (broken_logout unauthorized_garbled) signed_in unauthorized_garbled)
        = Inl (Error ''logout handler failed'')"
proof -
  have "json ok_garbled = None \<and> status ok_garbled \<noteq> 401 \<and> status ok_garbled \<noteq> 403
   \<and> calls_fetch signed_in getAllRentals
   \<and> respond (quiet ok_garbled) (fetch_args ''/api'' signed_in getAllRentals) = Inr ok_garbled
   \<and> settled (handleResponse (quiet ok_garbled) signed_in ok_garbled)
        = Inl (Error ''Invalid response format.'')
   \<and> settled (invoke ''/api'' (quiet ok_garbled) signed_in getAllRentals)
        = Inl (Error ''Invalid response format.'')"
    using unparseable_body [where response = ok_garbled and w = signed_in and c = getAllRentals
        and env = "quiet ok_garbled" and base = "''/api''"]
    by (simp add: ok_garbled_def quiet_def calls_fetch_def)
  moreover have "(status unauthorized_garbled = 401 \<or> status unauthorized_garbled = 403)
   \<and> json unauthorized_garbled = None
   \<and> settled (handleResponse (quiet unauthorized_garbled) signed_in unauthorized_garbled)
        = Inr Undefined"
    using unparseable_body [where response = unauthorized_garbled and w = signed_in
        and env = "quiet unauthorized_garbled"]
    by (simp add: unauthorized_garbled_def quiet_def signed_in_def initial_world_def
        setForceLogout_def call_callback_def)
  moreover have
    "settled (handleResponse (broken_logout unauthorized_garbled) signed_in unauthorized_garbled)
        = Inl (Error ''logout handler failed'')"
    using unparseable_body [where response = unauthorized_garbled and w = signed_in
        and env = "broken_logout unauthorized_garbled"]
    by (simp add: unauthorized_garbled_def broken_logout_def quiet_def signed_in_def
        initial_world_def setForceLogout_def call_callback_def)
  ultimately show ?thesis by blast
qed

section \<open>Error messages of other failures\<close>

text \<open>
  Claim C4, as stated: a non-2xx JSON body without a \<^verbatim>\<open>message\<close> field gives the fixed fallback
  string. It fails for a body that has an \<^verbatim>\<open>error\<close> field, which is used before the fallback.
\<close>

theorem error_message_counterexample:
  "status conflict_error \<noteq> 401 \<and> status conflict_error \<noteq> 403 \<and> \<not> ok conflict_error
   \<and> json conflict_error = Some (JObj [(''error'', JStr ''Email already registered'')])
   \<and> map_of [(''error'', JStr ''Email already registered'')] ''message'' = None
   \<and> settled (handleResponse (quiet conflict_error) signed_in conflict_error) = Inl (Error ''Email already registered'')
   \<and> settled (handleResponse (quiet conflict_error) signed_in conflict_error) \<noteq> Inl (Error ''Unexpected error'')"
  by (simp add: conflict_error_def ok_def handleResponse_def new_Error_def js_or_def)

text \<open>
  Claim C4, amended. For a response that is not 2xx, 401 or 403 and whose body parses: when
  \<^verbatim>\<open>message\<close> is a non-empty string the method fails with exactly that string; when
  \<^verbatim>\<open>message\<close> is missing or falsy and \<^verbatim>\<open>error\<close> is a non-empty string it fails with that
  string; when both are missing or falsy it fails with \<^verbatim>\<open>Unexpected error\<close>.
\<close>

theorem error_message:
  assumes "status response \<noteq> 401" and "status response \<noteq> 403" and "\<not> ok response"
    and "json response = Some data"
  shows "(\<forall>m. opt_get data ''message'' = JStr m \<and> m \<noteq> [] \<longrightarrow>
            settled (handleResponse env w response) = Inl (Error m))
       \<and> (\<forall>m. \<not> truthy (opt_get data ''message'') \<and> opt_get data ''error'' = JStr m \<and> m \<noteq> [] \<longrightarrow>
            settled (handleResponse env w response) = Inl (Error m))
       \<and> (\<not> truthy (opt_get data ''message'') \<and> \<not> truthy (opt_get data ''error'') \<longrightarrow>
            settled (handleResponse env w response) = Inl (Error ''Unexpected error''))
       \<and> (calls_fetch w c \<and> respond env (fetch_args base w c) = Inr response \<longrightarrow>
            settled (invoke base env w c) = settled (handleResponse env w response))"
  using assms
  by (auto simp: handleResponse_other new_Error_def js_or_def invoke_settled)

theorem error_message_witness:
  "status server_error \<noteq> 401 \<and> status server_error \<noteq> 403 \<and> \<not> ok server_error
   \<and> json server_error = Some (JObj [(''message'', JStr ''Database unavailable'')])
   \<and> opt_get (JObj [(''message'', JStr ''Database unavailable'')]) ''message''
        = JStr ''Database unavailable''
   \<and> settled (handleResponse (quiet server_error) signed_in server_error) = Inl (Error ''Database unavailable'')
   \<and> calls_fetch signed_in getAllRentals
   \<and> respond (quiet server_error) (fetch_args ''/api'' signed_in getAllRentals) = Inr server_error
   \<and> settled (invoke ''/api'' (quiet server_error) signed_in getAllRentals)
        = Inl (Error ''Database unavailable'')
   \<and> status conflict_error \<noteq> 401 \<and> status conflict_error \<noteq> 403
   \<and> \<not> ok conflict_error
   \<and> \<not> truthy (opt_get (JObj [(''error'', JStr ''Email already registered'')]) ''message'')
   \<and> settled (handleResponse (quiet conflict_error) signed_in conflict_error) = Inl (Error ''Email already registered'')
   \<and> status bare_error \<noteq> 401 \<and> status bare_error \<noteq> 403 \<and> \<not> ok bare_error
   \<and> \<not> truthy (opt_get (JObj []) ''message'') \<and> \<not> truthy (opt_get (JObj []) ''error'')
   \<and> settled (handleResponse (quiet bare_error) signed_in bare_error) = Inl (Error ''Unexpected error'')"
proof -
  have "status server_error \<noteq> 401 \<and> status server_error \<noteq> 403 \<and> \<not> ok server_error
   \<and> json server_error = Some (JObj [(''message'', JStr ''Database unavailable'')])
   \<and> opt_get (JObj [(''message'', JStr ''Database unavailable'')]) ''message''
        = JStr ''Database unavailable''
   \<and> settled (handleResponse (quiet server_error) signed_in server_error) = Inl (Error ''Database unavailable'')
   \<and> calls_fetch signed_in getAllRentals
   \<and> respond (quiet server_error) (fetch_args ''/api'' signed_in getAllRentals) = Inr server_error
   \<and> settled (invoke ''/api'' (quiet server_error) signed_in getAllRentals)
        = Inl (Error ''Database unavailable'')"
    using error_message [where response = server_error and w = signed_in
        and data = "JObj [(''message'', JStr ''Database unavailable'')]"
        and c = getAllRentals and env = "quiet server_error" and base = "''/api''"]
    by (simp add: server_error_def ok_def quiet_def calls_fetch_def)
  moreover have "status conflict_error \<noteq> 401 \<and> status conflict_error \<noteq> 403
   \<and> \<not> ok conflict_error
   \<and> \<not> truthy (opt_get (JObj [(''error'', JStr ''Email already registered'')]) ''message'')
   \<and> settled (handleResponse (quiet conflict_error) signed_in conflict_error) = Inl (Error ''Email already registered'')"
    using error_message [where response = conflict_error and w = signed_in
        and env = "quiet conflict_error"
        and data = "JObj [(''error'', JStr ''Email already registered'')]"]
    by (simp add: conflict_error_def ok_def)
  moreover have "status bare_error \<noteq> 401 \<and> status bare_error \<noteq> 403 \<and> \<not> ok bare_error
   \<and> \<not> truthy (opt_get (JObj []) ''message'') \<and> \<not> truthy (opt_get (JObj []) ''error'')
   \<and> settled (handleResponse (quiet bare_error) signed_in bare_error) = Inl (Error ''Unexpected error'')"
    using error_message [where response = bare_error and w = signed_in
        and env = "quiet bare_error" and data = "JObj []"]
    by (simp add: bare_error_def ok_def)
  ultimately show ?thesis by blast
qed

section \<open>The simulated payment\<close>

text \<open>
  Claim C5. \<^verbatim>\<open>processPayment\<close> waits two seconds and issues no request. When its first draw is
  greater than \<^verbatim>\<open>0.1\<close> it resolves with a transaction identifier made of \<^verbatim>\<open>TXN_\<close>, the decimal
  digits of the clock, an underscore and at most nine characters of the base-36 text of a second
  draw; otherwise it rejects with \<^verbatim>\<open>Payment failed. Please try again.\<close> The draws that
  succeed fill nine tenths of the unit interval, up to \<open>1 / 10 ^ 17\<close>; how the random source
  spreads its draws over that interval is outside this theory, where the draws are inputs.
\<close>

theorem processPayment_simulated:
  "(RN (1 / 10) < Math_random rt 0 \<longrightarrow>
      settled (processPayment rt env w paymentData) =
        Inr (JObj [(''success'', JBool True),
                   (''transactionId'', JStr (''TXN_'' @ show_int (Date_now rt) @ ''_'' @
                       take 9 (drop 2 (toString36 rt (Math_random rt 1))))),
                   (''message'', JStr ''Payment processed successfully'')]))
   \<and> (Math_random rt 0 \<le> RN (1 / 10) \<longrightarrow>
      settled (processPayment rt env w paymentData) =
        Inl (Error ''Payment failed. Please try again.''))
   \<and> RN (1 / 10) = 3602879701896397 / 36028797018963968
   \<and> \<bar>(1 - RN (1 / 10)) - 9 / 10\<bar> < 1 / 10 ^ 17
   \<and> (0 \<le> Date_now rt \<longrightarrow>
        show_int (Date_now rt) \<noteq> [] \<and> set (show_int (Date_now rt)) \<subseteq> set ''0123456789'')
   \<and> events (processPayment rt env w paymentData) = [SetTimeout 2000]
   \<and> (\<forall>r. Fetch r \<notin> set (events (processPayment rt env w paymentData)))"
proof -
  have "0 \<le> Date_now rt \<longrightarrow>
        show_int (Date_now rt) \<noteq> [] \<and> set (show_int (Date_now rt)) \<subseteq> set ''0123456789''"
    using show_nat_digits [of "nat (Date_now rt)"] by (simp add: show_int_def)
  then show ?thesis
    by (simp add: processPayment_def transactionId_def substr_def Let_def RN_tenth)
qed

theorem processPayment_simulated_witness:
  "RN (1 / 10) < Math_random half_runtime 0
   \<and> settled (processPayment half_runtime (quiet server_error) signed_out JNull) =
        Inr (JObj [(''success'', JBool True),
                   (''transactionId'', JStr ''TXN_1700000000000_i''),
                   (''message'', JStr ''Payment processed successfully'')])
   \<and> Math_random unlucky_runtime 0 \<le> RN (1 / 10)
   \<and> settled (processPayment unlucky_runtime (quiet server_error) signed_out JNull) =
        Inl (Error ''Payment failed. Please try again.'')
   \<and> 0 \<le> Date_now half_runtime"
  using processPayment_simulated [of half_runtime "quiet server_error" signed_out JNull]
    processPayment_simulated [of unlucky_runtime "quiet server_error" signed_out JNull]
  by (simp add: half_runtime_def unlucky_runtime_def show_int_eval)

section \<open>The simulated reports\<close>






section \<open>A fixed example request\<close>

text \<open>
  Claim C7. \<^verbatim>\<open>updateRentalStatus("r1", "CONFIRMED")\<close> issues one request: a \<^verbatim>\<open>PUT\<close> to
  \<^verbatim>\<open><base>/rental/r1/status\<close> whose body is the text \<^verbatim>\<open>{"status":"CONFIRMED"}\<close> and whose
  headers are \<^verbatim>\<open>Content-Type: application/json\<close> followed, when a non-empty token is stored,
  by \<^verbatim>\<open>Authorization: Bearer <token>\<close>.
\<close>

theorem updateRentalStatus_request:
  \<open>fetch_args (API_BASE_URL v) w (updateRentalStatus ''r1'' ''CONFIRMED'') =
     \<lparr>url = API_BASE_URL v @ ''/rental/r1/status'', meth = Some ''PUT'',
      headers = (''Content-Type'', ''application/json'') #
        (case localStorage w ''auth_token'' of
           Some token \<Rightarrow> if token \<noteq> [] then [(''Authorization'', ''Bearer '' @ token)] else []
         | None \<Rightarrow> []),
      body = Some ''{"status":"CONFIRMED"}''\<rparr>
   \<and> (\<exists>rest. events (invoke (API_BASE_URL v) env w (updateRentalStatus ''r1'' ''CONFIRMED'')) =
         Fetch (fetch_args (API_BASE_URL v) w (updateRentalStatus ''r1'' ''CONFIRMED'')) # rest
         \<and> (\<forall>r. Fetch r \<notin> set rest))\<close>
proof -
  have "\<exists>rest. events (send env w req) = Fetch req # rest \<and> (\<forall>r. Fetch r \<notin> set rest)" for req
    by (cases "respond env req") (simp_all add: send_def Let_def handleResponse_no_fetch)
  then show ?thesis
    by (simp add: invoke_def fetch_init_def getAuthHeaders_def bearer_def quote_def quote_char_def)
qed

theorem updateRentalStatus_request_witness:
  \<open>fetch_args (API_BASE_URL None) signed_in (updateRentalStatus ''r1'' ''CONFIRMED'') =
     \<lparr>url = ''http://localhost:5000/api/rental/r1/status'', meth = Some ''PUT'',
      headers = [(''Content-Type'', ''application/json''), (''Authorization'', ''Bearer abc'')],
      body = Some ''{"status":"CONFIRMED"}''\<rparr>
   \<and> headers (fetch_args (API_BASE_URL None) signed_out (updateRentalStatus ''r1'' ''CONFIRMED''))
       = [(''Content-Type'', ''application/json'')]\<close>
  using updateRentalStatus_request [where v = None and w = signed_in]
    updateRentalStatus_request [where v = None and w = signed_out]
  by (simp add: API_BASE_URL_def signed_in_def signed_out_def initial_world_def
      setForceLogout_def)

section \<open>The role chosen by the login form\<close>

lemma take_eq_iff_prefix: "take (length sub) s = sub \<longleftrightarrow> (\<exists>q. s = sub @ q)"
  by (metis append_eq_conv_conj append_take_drop_id)

lemma str_includes_iff: "str_includes s sub \<longleftrightarrow> (\<exists>p q. s = p @ sub @ q)"
proof (induction s)
  case Nil
  then show ?case by auto
next
  case (Cons c cs)
  have "(\<exists>p q. c # cs = p @ sub @ q) \<longleftrightarrow> (\<exists>q. c # cs = sub @ q) \<or> (\<exists>p q. cs = p @ sub @ q)"
    by (auto simp: Cons_eq_append_conv)
  then show ?case
    using Cons.IH take_eq_iff_prefix [of sub "c # cs"] by simp
qed

text \<open>
  Claim C8. Submitting the form calls no endpoint and calls \<^verbatim>\<open>onLogin\<close> once, with
  \<^verbatim>\<open>admin\<close> exactly when the e-mail field contains \<^verbatim>\<open>admin\<close> and with \<^verbatim>\<open>customer\<close>
  otherwise; the password field plays no part.
\<close>

theorem login_role:
  "handleSubmit email password =
     [PreventDefault,
      OnLogin (if (\<exists>p q. email = p @ ''admin'' @ q) then ''admin'' else ''customer'')]
   \<and> (\<forall>r. FetchCall r \<notin> set (handleSubmit email password))
   \<and> handleSubmit email password = handleSubmit email password'"
  by (simp add: handleSubmit_def str_includes_iff Let_def)

theorem login_role_witness:
  "handleSubmit ''sysadmin@example.com'' ''x'' = [PreventDefault, OnLogin ''admin'']
   \<and> handleSubmit ''jo@example.com'' ''secret'' = [PreventDefault, OnLogin ''customer'']"
  using login_role [of "''sysadmin@example.com''" "''x''"]
  by (simp add: handleSubmit_def)

section \<open>The current user without a token\<close>

text \<open>
  Claim C9. With nothing stored under \<^verbatim>\<open>auth_token\<close>, \<^verbatim>\<open>getCurrentUser\<close> resolves with
  \<^verbatim>\<open>{ user: null }\<close>, issues no request, logs nothing and leaves the world as it was.
\<close>

theorem getCurrentUser_without_token:
  assumes "localStorage w ''auth_token'' = None"
  shows "invoke base env w getCurrentUser =
           \<lparr>settled = Inr (JObj [(''user'', JNull)]), after = w, events = []\<rparr>"
  using assms by (simp add: invoke_def run_getCurrentUser_def)

theorem getCurrentUser_without_token_witness:
  "localStorage signed_out ''auth_token'' = None
   \<and> invoke ''/api'' (quiet server_error) signed_out getCurrentUser =
        \<lparr>settled = Inr (JObj [(''user'', JNull)]), after = signed_out, events = []\<rparr>"
  using getCurrentUser_without_token [where w = signed_out and base = "''/api''"
      and env = "quiet server_error"]
  by (simp add: signed_out_def initial_world_def)

section \<open>Frame property of \<^verbatim>\<open>handleResponse\<close>\<close>

text \<open>
  Claim C10. For every response whose status is neither 401 nor 403, \<open>handleResponse\<close> leaves
  local storage (the token with it) and the callback slot as they were and calls no callback,
  whether it rejects with the parse error, rejects with the error of a non-2xx status, or resolves
  with the parsed data.
\<close>

theorem handleResponse_frame:
  assumes "status response \<noteq> 401" and "status response \<noteq> 403"
  shows "after (handleResponse env w response) = w
       \<and> localStorage (after (handleResponse env w response)) ''auth_token'' = localStorage w ''auth_token''
       \<and> forceLogoutFn (after (handleResponse env w response)) = forceLogoutFn w
       \<and> events (handleResponse env w response) = []
       \<and> (json response = None \<longrightarrow>
            settled (handleResponse env w response) = Inl (Error ''Invalid response format.''))
       \<and> (\<forall>data. json response = Some data \<and> \<not> ok response \<longrightarrow>
            (\<exists>e. settled (handleResponse env w response) = Inl e))
       \<and> (\<forall>data. json response = Some data \<and> ok response \<longrightarrow>
            settled (handleResponse env w response) = Inr data)"
  using assms by (simp add: handleResponse_other)

theorem handleResponse_frame_witness:
  "status server_error \<noteq> 401 \<and> status server_error \<noteq> 403
   \<and> json server_error \<noteq> None \<and> \<not> ok server_error
   \<and> after (handleResponse (quiet server_error) signed_in server_error) = signed_in
   \<and> localStorage (after (handleResponse (quiet server_error) signed_in server_error)) ''auth_token'' = Some ''abc''
   \<and> events (handleResponse (quiet server_error) signed_in server_error) = []
   \<and> settled (handleResponse (quiet server_error) signed_in server_error) = Inl (Error ''Database unavailable'')
   \<and> status ok_garbled \<noteq> 401 \<and> status ok_garbled \<noteq> 403 \<and> json ok_garbled = None
   \<and> after (handleResponse (quiet ok_garbled) signed_in ok_garbled) = signed_in
   \<and> settled (handleResponse (quiet ok_garbled) signed_in ok_garbled) = Inl (Error ''Invalid response format.'')
   \<and> status created \<noteq> 401 \<and> status created \<noteq> 403 \<and> ok created
   \<and> after (handleResponse (quiet created) signed_in created) = signed_in
   \<and> settled (handleResponse (quiet created) signed_in created) = Inr (JObj [(''id'', JStr ''r1'')])"
proof -
  have "status server_error \<noteq> 401 \<and> status server_error \<noteq> 403
   \<and> json server_error \<noteq> None \<and> \<not> ok server_error
   \<and> after (handleResponse (quiet server_error) signed_in server_error) = signed_in
   \<and> localStorage (after (handleResponse (quiet server_error) signed_in server_error)) ''auth_token'' = Some ''abc''
   \<and> events (handleResponse (quiet server_error) signed_in server_error) = []
   \<and> settled (handleResponse (quiet server_error) signed_in server_error) = Inl (Error ''Database unavailable'')"
    using handleResponse_frame [where response = server_error and w = signed_in
        and env = "quiet server_error"]
    by (simp add: server_error_def signed_in_def initial_world_def setForceLogout_def ok_def
        handleResponse_def new_Error_def js_or_def)
  moreover have "status ok_garbled \<noteq> 401 \<and> status ok_garbled \<noteq> 403 \<and> json ok_garbled = None
   \<and> after (handleResponse (quiet ok_garbled) signed_in ok_garbled) = signed_in
   \<and> settled (handleResponse (quiet ok_garbled) signed_in ok_garbled) = Inl (Error ''Invalid response format.'')"
    using handleResponse_frame [where response = ok_garbled and w = signed_in
        and env = "quiet ok_garbled"]
    by (simp add: ok_garbled_def)
  moreover have "status created \<noteq> 401 \<and> status created \<noteq> 403 \<and> ok created
   \<and> after (handleResponse (quiet created) signed_in created) = signed_in
   \<and> settled (handleResponse (quiet created) signed_in created) = Inr (JObj [(''id'', JStr ''r1'')])"
    using handleResponse_frame [where response = created and w = signed_in
        and env = "quiet created"]
    by (simp add: created_def ok_def)
  ultimately show ?thesis by blast
qed

end
